theory Spec2Isabelle
  imports Complex_Main "HOL-Library.Sublist" "HOL-Library.AList"
begin

section \<open>Grid layout selector: \<open>getOptimalColumns\<close>\<close>

text \<open>
  \<open>getOptimalColumns(count)\<close> of \<open>src/components/CategorySection.tsx\<close> is only ever
  called with \<open>videos.length\<close>, so \<open>count\<close> is a natural number.  The returned value is the
  class string itself.
\<close>

definition default_token :: string where
  "default_token = ''grid-cols-2 sm:grid-cols-3 md:grid-cols-4 lg:grid-cols-5 xl:grid-cols-6''"

text \<open>The inner \<open>findDivisors\<close>: the loop \<open>for (i = 1; i <= n; i++) if (n % i === 0) push(i)\<close>.\<close>

fun findDivisors_loop :: "nat \<Rightarrow> nat \<Rightarrow> nat \<Rightarrow> nat list \<Rightarrow> nat list" where
  "findDivisors_loop 0 i n divisors = divisors"
| "findDivisors_loop (Suc fuel) i n divisors =
     findDivisors_loop fuel (i + 1) n (if n mod i = 0 then divisors @ [i] else divisors)"

definition findDivisors :: "nat \<Rightarrow> nat list" where
  "findDivisors n = findDivisors_loop n 1 n []"

text \<open>Decimal rendering of a number, as the template string \<open>${cols}\<close> produces it.\<close>

function show_nat :: "nat \<Rightarrow> string" where
  "show_nat n =
     (if n < 10 then [char_of (48 + n)]
      else show_nat (n div 10) @ [char_of (48 + n mod 10)])"
  by pat_completeness auto
termination
  by (relation "measure id") auto

definition colsMap :: "(nat \<times> string) list" where
  "colsMap =
    [(2, ''grid-cols-2 sm:grid-cols-2 md:grid-cols-2 lg:grid-cols-2 xl:grid-cols-2''),
     (3, ''grid-cols-2 sm:grid-cols-3 md:grid-cols-3 lg:grid-cols-3 xl:grid-cols-3''),
     (4, ''grid-cols-2 sm:grid-cols-3 md:grid-cols-4 lg:grid-cols-4 xl:grid-cols-4''),
     (5, ''grid-cols-2 sm:grid-cols-3 md:grid-cols-4 lg:grid-cols-5 xl:grid-cols-5''),
     (6, ''grid-cols-2 sm:grid-cols-3 md:grid-cols-4 lg:grid-cols-5 xl:grid-cols-6''),
     (7, ''grid-cols-2 sm:grid-cols-3 md:grid-cols-4 lg:grid-cols-5 xl:grid-cols-7''),
     (8, ''grid-cols-2 sm:grid-cols-3 md:grid-cols-4 lg:grid-cols-5 xl:grid-cols-8'')]"

text \<open>
  \<open>colsMap[cols] || `grid-cols-2 sm:grid-cols-3 md:grid-cols-${cols}`\<close>: every string of the
  table is non-empty, hence truthy, so the template is used exactly for a missing key.
\<close>

definition getResponsiveCols :: "nat \<Rightarrow> string" where
  "getResponsiveCols cols =
     (case map_of colsMap cols of
        Some s \<Rightarrow> s
      | None \<Rightarrow> ''grid-cols-2 sm:grid-cols-3 md:grid-cols-'' @ show_nat cols)"

definition preferredCols :: "nat list" where
  "preferredCols = [4, 5, 6, 3, 2]"

text \<open>
  The two \<open>for (const cols of preferredCols)\<close> loops return at the first candidate that
  passes their test; \<open>None\<close> means that the loop ran to its end.
\<close>

definition first_pass :: "nat \<Rightarrow> nat option" where
  "first_pass count = find (\<lambda>cols. cols \<in> set (findDivisors count)) preferredCols"

text \<open>
  \<open>Math.ceil(count / cols)\<close> is the ceiling of the exact quotient (the operands are array
  lengths and small constants, on which the floating-point quotient rounds to the same
  integer).
\<close>

definition relaxed_fit :: "nat \<Rightarrow> nat \<Rightarrow> bool" where
  "relaxed_fit count cols \<longleftrightarrow>
     count mod cols = 0 \<or> cols mod count = 0 \<or>
     \<lceil>(of_nat count :: rat) / of_nat cols\<rceil> * int cols - int count \<le> 2"

definition second_pass :: "nat \<Rightarrow> nat option" where
  "second_pass count = find (relaxed_fit count) preferredCols"

definition getOptimalColumns :: "nat \<Rightarrow> string" where
  "getOptimalColumns count =
     (if count = 0 then default_token
      else case first_pass count of
        Some cols \<Rightarrow> getResponsiveCols cols
      | None \<Rightarrow>
         (case second_pass count of
            Some cols \<Rightarrow> getResponsiveCols cols
          | None \<Rightarrow> default_token))"

text \<open>
  The column count of the largest breakpoint of a token: the number that ends the token
  (the \<open>xl:grid-cols-N\<close> class of a table entry).
\<close>

definition is_digit :: "char \<Rightarrow> bool" where
  "is_digit c \<longleftrightarrow> 48 \<le> (of_char c :: nat) \<and> (of_char c :: nat) \<le> 57"

definition read_nat :: "string \<Rightarrow> nat" where
  "read_nat ds = foldl (\<lambda>a c. 10 * a + (of_char c - 48)) 0 ds"

definition largest_breakpoint_cols :: "string \<Rightarrow> nat" where
  "largest_breakpoint_cols token = read_nat (rev (takeWhile is_digit (rev token)))"

section \<open>JavaScript values\<close>

text \<open>
  The variable \<open>data\<close> of \<open>fetchCategoryVideos\<close> has type \<open>any\<close>: it is whatever
  \<open>JSON.parse\<close> returned, or the object built by \<open>parseXmlResponse\<close>.  A number is
  \<open>NaN\<close>, an infinity, negative zero, or a finite value given as the rational it is equal
  to (\<open>Fin 0\<close> is positive zero).  Strings are sequences of bytes, the UTF-8 encoding of the
  text, and an object is the list of its own properties in insertion order.
\<close>

datatype jsnum = NaN | Fin rat | PosInfinity | NegInfinity | NegZero

datatype jsval =
    JUndefined
  | JNull
  | JBool bool
  | JNum jsnum
  | JStr string
  | JArr "jsval list"
  | JObj "(string \<times> jsval) list"

datatype js_error = TypeError | SyntaxError | NetworkError

fun truthy :: "jsval \<Rightarrow> bool" where
  "truthy JUndefined = False"
| "truthy JNull = False"
| "truthy (JBool b) = b"
| "truthy (JNum NaN) = False"
| "truthy (JNum (Fin r)) = (r \<noteq> 0)"
| "truthy (JNum PosInfinity) = True"
| "truthy (JNum NegInfinity) = True"
| "truthy (JNum NegZero) = False"
| "truthy (JStr s) = (s \<noteq> [])"
| "truthy (JArr xs) = True"
| "truthy (JObj ps) = True"

text \<open>\<open>Array.isArray(v)\<close>.\<close>

fun isArray :: "jsval \<Rightarrow> bool" where
  "isArray (JArr xs) = True"
| "isArray v = False"

text \<open>
  The own enumerable properties that the spread \<open>{...item}\<close> copies: those of an object,
  the indexed elements of an array or of a string (one per byte here, which is one per
  character for ASCII text), and nothing for any other value.
\<close>

fun own_enumerable :: "jsval \<Rightarrow> (string \<times> jsval) list" where
  "own_enumerable (JObj ps) = ps"
| "own_enumerable (JArr xs) = zip (map show_nat [0..<length xs]) xs"
| "own_enumerable (JStr s) = zip (map show_nat [0..<length s]) (map (\<lambda>c. JStr [c]) s)"
| "own_enumerable v = []"

text \<open>
  A property read \<open>v.k\<close> for a name \<open>k\<close> other than \<open>length\<close> that no prototype defines
  (\<open>list\<close> and \<open>pagecount\<close> are such names): a \<open>TypeError\<close> on \<open>null\<close> and
  \<open>undefined\<close>, the own property where there is one, \<open>undefined\<close> otherwise.
\<close>

fun get_prop :: "jsval \<Rightarrow> string \<Rightarrow> js_error + jsval" where
  "get_prop JUndefined k = Inl TypeError"
| "get_prop JNull k = Inl TypeError"
| "get_prop v k =
     Inr (case map_of (own_enumerable v) k of
            Some x \<Rightarrow> x
          | None \<Rightarrow> JUndefined)"

text \<open>\<open>x || d\<close> for a value \<open>x\<close> that is a string or \<open>null\<close>.\<close>

fun or_default :: "string option \<Rightarrow> string \<Rightarrow> string" where
  "or_default None d = d"
| "or_default (Some s) d = (if s \<noteq> [] then s else d)"

subsection \<open>String operations\<close>

text \<open>
  The white space and line terminators that \<open>trim\<close> and \<open>parseInt\<close> skip, each in its
  UTF-8 encoding: U+0009 to U+000D, U+0020, U+00A0, U+1680, U+2000 to U+200A, U+2028, U+2029,
  U+202F, U+205F, U+3000 and U+FEFF.
\<close>

definition white_space :: "string list" where
  "white_space =
    [[CHR 0x09], [CHR 0x0A], [CHR 0x0B], [CHR 0x0C], [CHR 0x0D], [CHR 0x20],
     [CHR 0xC2, CHR 0xA0],
     [CHR 0xE1, CHR 0x9A, CHR 0x80],
     [CHR 0xE2, CHR 0x80, CHR 0x80], [CHR 0xE2, CHR 0x80, CHR 0x81],
     [CHR 0xE2, CHR 0x80, CHR 0x82], [CHR 0xE2, CHR 0x80, CHR 0x83],
     [CHR 0xE2, CHR 0x80, CHR 0x84], [CHR 0xE2, CHR 0x80, CHR 0x85],
     [CHR 0xE2, CHR 0x80, CHR 0x86], [CHR 0xE2, CHR 0x80, CHR 0x87],
     [CHR 0xE2, CHR 0x80, CHR 0x88], [CHR 0xE2, CHR 0x80, CHR 0x89],
     [CHR 0xE2, CHR 0x80, CHR 0x8A],
     [CHR 0xE2, CHR 0x80, CHR 0xA8], [CHR 0xE2, CHR 0x80, CHR 0xA9],
     [CHR 0xE2, CHR 0x80, CHR 0xAF],
     [CHR 0xE2, CHR 0x81, CHR 0x9F],
     [CHR 0xE3, CHR 0x80, CHR 0x80],
     [CHR 0xEF, CHR 0xBB, CHR 0xBF]]"

text \<open>Dropping, from the front of a string, every leading occurrence of one of the given words.\<close>

function strip_prefixes :: "string list \<Rightarrow> string \<Rightarrow> string" where
  "strip_prefixes ws s =
     (case find (\<lambda>w. w \<noteq> [] \<and> prefix w s) ws of
        Some w \<Rightarrow> strip_prefixes ws (drop (length w) s)
      | None \<Rightarrow> s)"
  by pat_completeness auto
termination
proof (relation "measure (\<lambda>(ws, s). length s)")
  show "wf (measure (\<lambda>(ws, s). length s))"
    by simp
next
  fix ws :: "string list" and s w :: string
  assume "find (\<lambda>w. w \<noteq> [] \<and> prefix w s) ws = Some w"
  then have "w \<noteq> [] \<and> prefix w s"
    by (induction ws) (auto split: if_splits)
  then have "length (drop (length w) s) < length s"
    by (auto simp: prefix_def)
  then show "((ws, drop (length w) s), ws, s) \<in> measure (\<lambda>(ws, s). length s)"
    by simp
qed

definition trimStart :: "string \<Rightarrow> string" where
  "trimStart s = strip_prefixes white_space s"

definition trimEnd :: "string \<Rightarrow> string" where
  "trimEnd s = rev (strip_prefixes (map rev white_space) (rev s))"

definition trim :: "string \<Rightarrow> string" where
  "trim s = trimEnd (trimStart s)"

definition startsWith :: "string \<Rightarrow> string \<Rightarrow> bool" where
  "startsWith s p \<longleftrightarrow> prefix p s"

fun str_includes :: "string \<Rightarrow> string \<Rightarrow> bool" where
  "str_includes [] p = (p = [])"
| "str_includes (c # s) p = (prefix p (c # s) \<or> str_includes s p)"

fun join :: "string \<Rightarrow> string list \<Rightarrow> string" where
  "join sep [] = []"
| "join sep [x] = x"
| "join sep (x # y # ys) = x @ sep @ join sep (y # ys)"

section \<open>The XML listing parser: \<open>parseXmlResponse\<close>\<close>

text \<open>
  The DOM tree that \<open>DOMParser.parseFromString(xmlText, 'text/xml')\<close> returns, given by its
  document element.  \<open>DOMParser\<close> and \<open>JSON.parse\<close> belong to the browser, not to the
  repository, so they are parameters of the model, and so is the rounding of an integer beyond
  \<open>2^53\<close> to a double (\<open>number_value\<close>).
\<close>

datatype node =
    Element string "(string \<times> string) list" "node list"
  | Text string
  | Comment string

record platform =
  JSON_parse :: "string \<Rightarrow> js_error + jsval"
  parseFromString :: "string \<Rightarrow> node"
  number_value :: "int \<Rightarrow> jsnum"

text \<open>
  \<open>parseInt(str)\<close> with no radix: leading white space is dropped, a sign is read, a
  \<open>0x\<close> prefix selects radix 16, and the longest run of digits is read as an integer; with
  no digit the result is \<open>NaN\<close>.  The result is the Number value of the integer: the integer
  itself up to \<open>2^53\<close> in magnitude (negative zero for \<open>-0\<close>), and beyond that the double
  that the platform rounds it to, which may be an infinity.
\<close>

definition digit_value :: "char \<Rightarrow> nat option" where
  "digit_value c =
     (let n = (of_char c :: nat) in
      if 48 \<le> n \<and> n \<le> 57 then Some (n - 48)
      else if 97 \<le> n \<and> n \<le> 122 then Some (n - 87)
      else if 65 \<le> n \<and> n \<le> 90 then Some (n - 55)
      else None)"

definition is_radix_digit :: "nat \<Rightarrow> char \<Rightarrow> bool" where
  "is_radix_digit radix c = (case digit_value c of Some d \<Rightarrow> d < radix | None \<Rightarrow> False)"

definition digits_value :: "nat \<Rightarrow> string \<Rightarrow> int" where
  "digits_value radix ds =
     foldl (\<lambda>a c. a * int radix + int (case digit_value c of Some d \<Rightarrow> d | None \<Rightarrow> 0)) 0 ds"

definition to_number :: "platform \<Rightarrow> int \<Rightarrow> jsnum" where
  "to_number P n = (if \<bar>n\<bar> \<le> 2 ^ 53 then Fin (of_int n) else number_value P n)"

definition parseInt :: "platform \<Rightarrow> string \<Rightarrow> jsnum" where
  "parseInt P str =
     (let s = trimStart str;
          neg = (s \<noteq> [] \<and> hd s = CHR ''-'');
          s1 = (if s \<noteq> [] \<and> (hd s = CHR ''-'' \<or> hd s = CHR ''+'') then tl s else s);
          hex = (prefix ''0x'' s1 \<or> prefix ''0X'' s1);
          radix = (if hex then 16 else 10);
          s2 = (if hex then drop 2 s1 else s1);
          ds = takeWhile (is_radix_digit radix) s2
      in if ds = [] then NaN
         else if neg \<and> digits_value radix ds = 0 then NegZero
         else to_number P ((if neg then - 1 else 1) * digits_value radix ds))"

text \<open>The elements of a subtree in document order, the root of the subtree first.\<close>

fun subtree_elements :: "node \<Rightarrow> node list" where
  "subtree_elements (Element t as cs) = Element t as cs # concat (map subtree_elements cs)"
| "subtree_elements (Text s) = []"
| "subtree_elements (Comment s) = []"

fun descendant_elements :: "node \<Rightarrow> node list" where
  "descendant_elements (Element t as cs) = concat (map subtree_elements cs)"
| "descendant_elements (Text s) = []"
| "descendant_elements (Comment s) = []"

fun has_tag :: "string \<Rightarrow> node \<Rightarrow> bool" where
  "has_tag tag (Element t as cs) = (t = tag)"
| "has_tag tag (Text s) = False"
| "has_tag tag (Comment s) = False"

text \<open>
  \<open>element.getElementsByTagName(tag)\<close> lists the descendants of the element;
  \<open>document.getElementsByTagName(tag)\<close> also lists the document element itself.
\<close>

definition getElementsByTagName :: "node \<Rightarrow> string \<Rightarrow> node list" where
  "getElementsByTagName element tag = filter (has_tag tag) (descendant_elements element)"

definition document_getElementsByTagName :: "node \<Rightarrow> string \<Rightarrow> node list" where
  "document_getElementsByTagName xmlDoc tag = filter (has_tag tag) (subtree_elements xmlDoc)"

text \<open>\<open>element.textContent\<close>: the text of all descendants, comments left out.\<close>

fun textContent :: "node \<Rightarrow> string" where
  "textContent (Element t as cs) = concat (map textContent cs)"
| "textContent (Text s) = s"
| "textContent (Comment s) = []"

fun getAttribute :: "node \<Rightarrow> string \<Rightarrow> string option" where
  "getAttribute (Element t as cs) name = map_of as name"
| "getAttribute (Text s) name = None"
| "getAttribute (Comment s) name = None"

definition fields' :: "(string \<times> string) list" where
  "fields' =
    [(''id'', ''vod_id''),
     (''name'', ''vod_name''),
     (''pic'', ''vod_pic''),
     (''type'', ''type_name''),
     (''year'', ''vod_year''),
     (''area'', ''vod_area''),
     (''director'', ''vod_director''),
     (''actor'', ''vod_actor''),
     (''note'', ''vod_remarks''),
     (''des'', ''vod_content'')]"

text \<open>\<open>fields.forEach(...)\<close>: \<open>videoData[field] = element.textContent\<close> where the tag is found.\<close>

fun fields_forEach :: "node \<Rightarrow> (string \<times> string) list \<Rightarrow> (string \<times> jsval) list \<Rightarrow> (string \<times> jsval) list" where
  "fields_forEach video [] videoData = videoData"
| "fields_forEach video ((tag, field) # rest) videoData =
     (case getElementsByTagName video tag of
        [] \<Rightarrow> fields_forEach video rest videoData
      | element # others \<Rightarrow>
          fields_forEach video rest (AList.update field (JStr (textContent element)) videoData))"

text \<open>The loop over \<open>ddElements\<close> (index \<open>k\<close>) and the loop over \<open>dlElements\<close> (index \<open>j\<close>).\<close>

fun dd_loop :: "node list \<Rightarrow> string list \<times> string list \<Rightarrow> string list \<times> string list" where
  "dd_loop [] (playUrls, playFroms) = (playUrls, playFroms)"
| "dd_loop (dd # dds) (playUrls, playFroms) =
     (let flag = or_default (getAttribute dd ''flag'') ''default'';
          urls = or_default (Some (textContent dd)) []
      in if urls \<noteq> [] then dd_loop dds (playUrls @ [urls], playFroms @ [flag])
         else dd_loop dds (playUrls, playFroms))"

fun dl_loop :: "node list \<Rightarrow> string list \<times> string list \<Rightarrow> string list \<times> string list" where
  "dl_loop [] acc = acc"
| "dl_loop (dl # dls) acc = dl_loop dls (dd_loop (getElementsByTagName dl ''dd'') acc)"

text \<open>The arrays \<open>playUrls\<close> and \<open>playFroms\<close> of one \<open>video\<close> element, after both loops.\<close>

definition play_lists :: "node \<Rightarrow> string list \<times> string list" where
  "play_lists video = dl_loop (getElementsByTagName video ''dl'') ([], [])"

definition playUrls :: "node \<Rightarrow> string list" where
  "playUrls video = fst (play_lists video)"

definition playFroms :: "node \<Rightarrow> string list" where
  "playFroms video = snd (play_lists video)"

text \<open>The \<open>dd\<close> elements that the two loops visit, in the order of the visits.\<close>

definition dd_elements :: "node \<Rightarrow> node list" where
  "dd_elements video =
     concat (map (\<lambda>dl. getElementsByTagName dl ''dd'') (getElementsByTagName video ''dl''))"

text \<open>The body of the loop over \<open>videoElements\<close>: the object pushed for one \<open>video\<close>.\<close>

definition videoData :: "node \<Rightarrow> (string \<times> jsval) list" where
  "videoData video =
     AList.update ''vod_play_from'' (JStr (join ''$$$'' (playFroms video)))
       (AList.update ''vod_play_url'' (JStr (join ''$$$'' (playUrls video)))
          (fields_forEach video fields' []))"

fun video_loop :: "node list \<Rightarrow> jsval list \<Rightarrow> jsval list" where
  "video_loop [] videos = videos"
| "video_loop (video # rest) videos = video_loop rest (videos @ [JObj (videoData video)])"

definition parseXmlResponse :: "platform \<Rightarrow> string \<Rightarrow> jsval" where
  "parseXmlResponse P xmlText =
     (let xmlDoc = parseFromString P xmlText;
          videoElements = document_getElementsByTagName xmlDoc ''video'';
          videos = video_loop videoElements [];
          (page, pagecount) =
            (case document_getElementsByTagName xmlDoc ''list'' of
               [] \<Rightarrow> (Fin 1, Fin 1)
             | listElement # others \<Rightarrow>
                 (parseInt P (or_default (getAttribute listElement ''page'') ''1''),
                  parseInt P (or_default (getAttribute listElement ''pagecount'') ''1'')))
      in JObj [(''code'', JNum (Fin 1)),
               (''list'', JArr videos),
               (''page'', JNum page),
               (''pagecount'', JNum pagecount)])"

section \<open>The fetch orchestrator: \<open>fetchCategoryVideos\<close>\<close>

text \<open>
  \<open>VideoApi\<close> is declared in \<open>@/types\<close>; the code reads its \<open>id\<close>, \<open>name\<close> and \<open>url\<close>.
\<close>

record VideoApi =
  id' :: string
  name :: string
  url :: string

text \<open>
  What \<open>await fetch(...)\<close> gives: a rejection, or a response with its \<open>ok\<close> flag, its
  \<open>content-type\<close> header (\<open>null\<close> when absent) and its body text.
\<close>

record response =
  ok :: bool
  content_type :: "string option"
  body :: string

datatype fetch_result = Rejected | Resolved response

text \<open>The component state that the effect writes: \<open>videos\<close>, \<open>loading\<close> and \<open>pageCount\<close>.\<close>

record comp_state =
  videos :: "jsval list"
  loading :: bool
  pageCount :: jsval

definition initial_state :: comp_state where
  "initial_state = \<lparr>videos = [], loading = True, pageCount = JNum (Fin 1)\<rparr>"

text \<open>The callback of \<open>data.list.map\<close>: the item's properties, then the three source keys.\<close>

definition stamp :: "VideoApi \<Rightarrow> jsval \<Rightarrow> (string \<times> jsval) list" where
  "stamp api item =
     AList.update ''api_url'' (JStr (url api))
       (AList.update ''source_code'' (JStr (id' api))
          (AList.update ''source_name'' (JStr (name api)) (own_enumerable item)))"

text \<open>Lines 165 to 180: what is done with \<open>data\<close> once it is resolved.\<close>

definition process_data :: "VideoApi \<Rightarrow> jsval \<Rightarrow> comp_state \<Rightarrow> js_error + comp_state" where
  "process_data api data st =
     (if \<not> truthy data then Inr (st\<lparr>videos := []\<rparr>)
      else case get_prop data ''list'' of
        Inl e \<Rightarrow> Inl e
      | Inr l \<Rightarrow>
          (case l of
             JArr items \<Rightarrow>
               (case get_prop data ''pagecount'' of
                  Inl e \<Rightarrow> Inl e
                | Inr pc \<Rightarrow>
                    Inr ((if truthy pc then st\<lparr>pageCount := pc\<rparr> else st)
                           \<lparr>videos := map (\<lambda>item. JObj (stamp api item)) items\<rparr>))
           | _ \<Rightarrow> Inr (st\<lparr>videos := []\<rparr>)))"

text \<open>The test of line 148 on the response, and the two ways \<open>data\<close> is obtained.\<close>

definition looks_xml :: "response \<Rightarrow> bool" where
  "looks_xml resp \<longleftrightarrow>
     str_includes (or_default (content_type resp) []) ''xml'' \<or>
     startsWith (trim (body resp)) ''<?xml''"

definition xml_branch_data :: "platform \<Rightarrow> response \<Rightarrow> js_error + jsval" where
  "xml_branch_data P resp =
     (if looks_xml resp then Inr (parseXmlResponse P (body resp))
      else JSON_parse P (body resp))"

text \<open>\<open>response.json()\<close> parses the body text as JSON.\<close>

definition json_branch_data :: "platform \<Rightarrow> response \<Rightarrow> js_error + jsval" where
  "json_branch_data P resp = JSON_parse P (body resp)"

definition isXmlApi :: "VideoApi \<Rightarrow> bool" where
  "isXmlApi api \<longleftrightarrow> str_includes (url api) ''/xml''"

text \<open>
  The \<open>try\<close> block.  \<open>Inl\<close> is an exception that reaches the \<open>catch\<close>; every statement that
  can throw comes before the first write to \<open>videos\<close> or \<open>pageCount\<close>.
\<close>

definition try_block :: "platform \<Rightarrow> VideoApi \<Rightarrow> fetch_result \<Rightarrow> comp_state \<Rightarrow> js_error + comp_state" where
  "try_block P api fetched st =
     (if isXmlApi api then
        (case fetched of
           Rejected \<Rightarrow> Inl NetworkError
         | Resolved resp \<Rightarrow>
             if \<not> ok resp then Inr (st\<lparr>videos := []\<rparr>)
             else (case xml_branch_data P resp of
                     Inl e \<Rightarrow> Inl e
                   | Inr data \<Rightarrow> process_data api data st))
      else
        (case fetched of
           Rejected \<Rightarrow> Inl NetworkError
         | Resolved resp \<Rightarrow>
             if \<not> ok resp then Inr (st\<lparr>videos := []\<rparr>)
             else (case json_branch_data P resp of
                     Inl e \<Rightarrow> Inl e
                   | Inr data \<Rightarrow> process_data api data st)))"

text \<open>
  \<open>fetchCategoryVideos\<close>: \<open>setLoading(true)\<close>, the \<open>try\<close> block, \<open>setVideos([])\<close> in the
  \<open>catch\<close>, and \<open>setLoading(false)\<close> in the \<open>finally\<close>.
\<close>

definition fetchCategoryVideos :: "platform \<Rightarrow> VideoApi \<Rightarrow> fetch_result \<Rightarrow> comp_state \<Rightarrow> comp_state" where
  "fetchCategoryVideos P api fetched st0 =
     (let st = st0\<lparr>loading := True\<rparr>;
          st' = (case try_block P api fetched st of
                   Inr st1 \<Rightarrow> st1
                 | Inl error \<Rightarrow> st\<lparr>videos := []\<rparr>)
      in st'\<lparr>loading := False\<rparr>)"

section \<open>Sample inputs\<close>

text \<open>
  Concrete sources, payloads and documents on which the functions are evaluated.  The sample
  platform answers on the sample texts as the browser does (a \<open>SyntaxError\<close> from
  \<open>JSON.parse\<close> and a \<open>parsererror\<close> document from \<open>DOMParser\<close> on every other text).
  \<open>xml_text_d\<close> starts with a no-break space, U+00A0.
\<close>

definition api_s1 :: VideoApi where
  "api_s1 = \<lparr>id' = ''s1'', name = ''Src'', url = ''http://x''\<rparr>"

definition api_xml :: VideoApi where
  "api_xml = \<lparr>id' = ''s2'', name = ''Xml'', url = ''http://x/xml''\<rparr>"

definition fixture_text :: string where
  \<open>fixture_text = ''{"list":[{"vod_id":"1","vod_name":"A"}],"pagecount":3}''\<close>

definition fixture_json :: jsval where
  "fixture_json =
     JObj [(''list'', JArr [JObj [(''vod_id'', JStr ''1''), (''vod_name'', JStr ''A'')]]),
           (''pagecount'', JNum (Fin 3))]"

definition not_array_text :: string where
  \<open>not_array_text = ''{"list":"not-an-array"}''\<close>

definition not_array_json :: jsval where
  "not_array_json = JObj [(''list'', JStr ''not-an-array'')]"

definition stamped_text :: string where
  \<open>stamped_text = ''{"list":[{"vod_id":"9","source_code":"other"}]}''\<close>

definition stamped_json :: jsval where
  "stamped_json =
     JObj [(''list'', JArr [JObj [(''vod_id'', JStr ''9''), (''source_code'', JStr ''other'')]])]"

text \<open>
  \<open><video><dl><dd flag="x"></dd><dd flag="y">http://a</dd></dl></video>\<close>, the same with a
  single blank \<open>dd\<close>, a \<open>video\<close> with an empty \<open>dl\<close> and one with no \<open>dl\<close> at all.
\<close>

definition video_two_dd :: node where
  "video_two_dd =
     Element ''video'' []
       [Element ''dl'' []
          [Element ''dd'' [(''flag'', ''x'')] [],
           Element ''dd'' [(''flag'', ''y'')] [Text ''http://a'']]]"

definition blank_dd :: node where
  "blank_dd = Element ''dd'' [(''flag'', ''x'')] [Text '' '']"

definition video_blank_dd :: node where
  "video_blank_dd =
     Element ''video'' [] [Element ''dl'' [] [blank_dd]]"

definition video_empty_dl :: node where
  "video_empty_dl = Element ''video'' [] [Element ''name'' [] [Text ''B''], Element ''dl'' [] []]"

definition video_no_dl :: node where
  "video_no_dl = Element ''video'' [] [Element ''name'' [] [Text ''B'']]"

definition xml_text_a :: string where
  \<open>xml_text_a = ''<?xml version="1.0"?><list page="2" pagecount="-3"><video><name>A</name></video><video><id>7</id></video></list>''\<close>

definition xml_doc_a :: node where
  "xml_doc_a =
     Element ''list'' [(''page'', ''2''), (''pagecount'', ''-3'')]
       [Element ''video'' [] [Element ''name'' [] [Text ''A'']],
        Element ''video'' [] [Element ''id'' [] [Text ''7'']]]"

definition xml_text_b :: string where
  \<open>xml_text_b = ''<?xml version="1.0"?><list page="x" pagecount="abc"></list>''\<close>

definition xml_doc_b :: node where
  "xml_doc_b = Element ''list'' [(''page'', ''x''), (''pagecount'', ''abc'')] []"

definition xml_text_c :: string where
  \<open>xml_text_c = ''<?xml version="1.0"?><rss><video><id>5</id></video></rss>''\<close>

definition xml_doc_c :: node where
  "xml_doc_c = Element ''rss'' [] [Element ''video'' [] [Element ''id'' [] [Text ''5'']]]"

definition xml_text_d :: string where
  \<open>xml_text_d = [CHR 0xC2, CHR 0xA0] @ ''<?xml version="1.0"?><list pagecount="4"></list>''\<close>

definition xml_doc_d :: node where
  "xml_doc_d = Element ''list'' [(''pagecount'', ''4'')] []"

definition parsererror_doc :: node where
  "parsererror_doc = Element ''parsererror'' [] [Text ''error'']"

text \<open>Rounding an integer to the nearest double, ties to even.\<close>

function bit_length :: "int \<Rightarrow> nat" where
  "bit_length n = (if n \<le> 0 then 0 else Suc (bit_length (n div 2)))"
  by pat_completeness auto
termination
  by (relation "measure nat") auto

definition round_to_double :: "int \<Rightarrow> jsnum" where
  "round_to_double n =
     (let a = \<bar>n\<bar>;
          e = bit_length a - 53;
          q = a div 2 ^ e;
          r = a mod 2 ^ e;
          q' = (if 2 ^ e < 2 * r \<or> (2 * r = 2 ^ e \<and> odd q) then q + 1 else q);
          v = q' * 2 ^ e
      in if 2 ^ 1024 \<le> v then (if n < 0 then NegInfinity else PosInfinity)
         else Fin (of_int (if n < 0 then - v else v)))"

definition sample_platform :: platform where
  "sample_platform =
     \<lparr>JSON_parse = (\<lambda>t.
          if t = fixture_text then Inr fixture_json
          else if t = not_array_text then Inr not_array_json
          else if t = stamped_text then Inr stamped_json
          else Inl SyntaxError),
      parseFromString = (\<lambda>t.
          if t = xml_text_a then xml_doc_a
          else if t = xml_text_b then xml_doc_b
          else if t = xml_text_c then xml_doc_c
          else if t = xml_text_d then xml_doc_d
          else parsererror_doc),
      number_value = round_to_double\<rparr>"

definition json_response :: "string \<Rightarrow> response" where
  "json_response t = \<lparr>ok = True, content_type = Some ''application/json'', body = t\<rparr>"

definition xml_response :: "string \<Rightarrow> response" where
  "xml_response t = \<lparr>ok = True, content_type = Some ''text/xml'', body = t\<rparr>"

section \<open>Properties of the grid layout selector\<close>

lemma findDivisors_loop_filter:
  "findDivisors_loop fuel i n divisors = divisors @ filter (\<lambda>k. n mod k = 0) [i..<i + fuel]"
proof (induction fuel arbitrary: i divisors)
  case 0
  then show ?case by simp
next
  case (Suc fuel)
  have "[i..<i + Suc fuel] = i # [Suc i..<Suc i + fuel]"
    by (simp add: upt_rec)
  then show ?case
    using Suc.IH [of "i + 1"] by simp
qed

lemma set_findDivisors:
  "set (findDivisors n) = {k. 1 \<le> k \<and> k \<le> n \<and> n mod k = 0}"
  by (auto simp: findDivisors_def findDivisors_loop_filter)

lemma find_SomeD: "find P xs = Some x \<Longrightarrow> x \<in> set xs \<and> P x"
  by (induction xs) (auto split: if_splits)

lemma ceiling_of_nat_divide:
  "\<lceil>(of_nat a :: rat) / of_nat b\<rceil> = - ((- int a) div int b)"
  using ceiling_divide_eq_div [of "int a" "int b", where ?'a = rat] by simp

lemma slack_three: "\<lceil>(of_nat count :: rat) / 3\<rceil> * 3 - int count \<le> 2"
proof -
  have "- ((- int count) div 3) * 3 - int count \<le> 2"
    by presburger
  then show ?thesis
    using ceiling_of_nat_divide [of count 3] by simp
qed

lemma relaxed_fit_three: "relaxed_fit count 3"
  using slack_three [of count] by (simp add: relaxed_fit_def)

lemma second_pass_accepts: "\<exists>cols. second_pass count = Some cols"
proof (cases "second_pass count")
  case None
  then have "find (relaxed_fit count) preferredCols = None"
    by (simp add: second_pass_def)
  then have "\<not> (\<exists>x. x \<in> set preferredCols \<and> relaxed_fit count x)"
    by (simp add: find_None_iff)
  moreover have "3 \<in> set preferredCols"
    by (simp add: preferredCols_def)
  ultimately show ?thesis using relaxed_fit_three by blast
next
  case (Some cols)
  then show ?thesis by simp
qed

lemma token_of_candidate:
  assumes "cols \<in> set preferredCols"
  shows "map_of colsMap cols = Some (getResponsiveCols cols) \<and>
         largest_breakpoint_cols (getResponsiveCols cols) = cols"
proof -
  have "cols = 4 \<or> cols = 5 \<or> cols = 6 \<or> cols = 3 \<or> cols = 2"
    using assms by (simp add: preferredCols_def)
  moreover have "map_of colsMap 4 = Some (getResponsiveCols 4) \<and> largest_breakpoint_cols (getResponsiveCols 4) = 4" by code_simp
  moreover have "map_of colsMap 5 = Some (getResponsiveCols 5) \<and> largest_breakpoint_cols (getResponsiveCols 5) = 5" by code_simp
  moreover have "map_of colsMap 6 = Some (getResponsiveCols 6) \<and> largest_breakpoint_cols (getResponsiveCols 6) = 6" by code_simp
  moreover have "map_of colsMap 3 = Some (getResponsiveCols 3) \<and> largest_breakpoint_cols (getResponsiveCols 3) = 3" by code_simp
  moreover have "map_of colsMap 2 = Some (getResponsiveCols 2) \<and> largest_breakpoint_cols (getResponsiveCols 2) = 2" by code_simp
  ultimately show ?thesis by blast
qed

text \<open>
  Claim C10.  For every \<open>count \<ge> 1\<close> the relaxed second pass accepts a candidate (candidate 3
  always has a slack of at most 2), so the value returned is the table entry of a candidate
  among 2, 3, 4, 5 and 6, reached from the first pass or from the second: the final default
  token, the entries for 7 and 8 and the template string are never reached.
\<close>

theorem column_selector_candidate:
  assumes "1 \<le> count"
  shows "\<lceil>(of_nat count :: rat) / 3\<rceil> * 3 - int count \<le> 2 \<and>
         (\<exists>cols. cols \<in> {2, 3, 4, 5, 6} \<and>
           (first_pass count = Some cols \<or> first_pass count = None \<and> second_pass count = Some cols) \<and>
           second_pass count \<noteq> None \<and>
           getOptimalColumns count = getResponsiveCols cols \<and>
           map_of colsMap cols = Some (getOptimalColumns count) \<and>
           largest_breakpoint_cols (getOptimalColumns count) = cols)"
proof -
  obtain c2 where c2: "second_pass count = Some c2"
    using second_pass_accepts by blast
  define cols where "cols = (case first_pass count of Some c \<Rightarrow> c | None \<Rightarrow> c2)"
  have mem: "cols \<in> set preferredCols"
  proof (cases "first_pass count")
    case None
    then show ?thesis
      using c2 find_SomeD [of "relaxed_fit count" preferredCols c2]
      by (simp add: cols_def second_pass_def)
  next
    case (Some c)
    then show ?thesis
      using find_SomeD [of "\<lambda>cols. cols \<in> set (findDivisors count)" preferredCols c]
      by (simp add: cols_def first_pass_def)
  qed
  have path: "first_pass count = Some cols \<or> first_pass count = None \<and> second_pass count = Some cols"
    using c2 by (cases "first_pass count") (simp_all add: cols_def)
  have res: "getOptimalColumns count = getResponsiveCols cols"
    using assms c2 by (cases "first_pass count") (simp_all add: getOptimalColumns_def cols_def)
  have "cols \<in> {2, 3, 4, 5, 6}"
    using mem by (auto simp: preferredCols_def)
  then have "\<exists>cols. cols \<in> {2, 3, 4, 5, 6} \<and>
           (first_pass count = Some cols \<or> first_pass count = None \<and> second_pass count = Some cols) \<and>
           second_pass count \<noteq> None \<and>
           getOptimalColumns count = getResponsiveCols cols \<and>
           map_of colsMap cols = Some (getOptimalColumns count) \<and>
           largest_breakpoint_cols (getOptimalColumns count) = cols"
    using path res c2 token_of_candidate [OF mem] by auto
  then show ?thesis
    using slack_three [of count] by blast
qed

theorem column_selector_candidate_witness:
  "(1::nat) \<le> 11 \<and> first_pass 11 = None \<and> second_pass 11 = Some 4 \<and>
   largest_breakpoint_cols (getOptimalColumns 11) = 4"
proof -
  have f: "first_pass 11 = None" by code_simp
  have s: "second_pass 11 = Some 4" by code_simp
  show ?thesis
    using column_selector_candidate [of 11] f s by auto
qed

text \<open>
  Claim C3, as amended.  For \<open>count = 7\<close> no candidate divides 7 in the first pass, and the
  second pass stops at its first candidate, 4, whose slack \<open>ceil(7/4) * 4 - 7 = 1\<close> is within
  2: the column count of the largest breakpoint is 4.
\<close>

theorem select_columns_seven:
  "list_all (\<lambda>cols. 7 mod cols \<noteq> 0) preferredCols \<and>
   first_pass 7 = None \<and> relaxed_fit 7 4 \<and> second_pass 7 = Some 4 \<and>
   getOptimalColumns 7 = ''grid-cols-2 sm:grid-cols-3 md:grid-cols-4 lg:grid-cols-4 xl:grid-cols-4'' \<and>
   largest_breakpoint_cols (getOptimalColumns 7) = 4"
  by code_simp

text \<open>The claim as stated, candidate 5 for \<open>count = 7\<close>, fails.\<close>

theorem select_columns_seven_counterexample:
  "second_pass 7 \<noteq> Some 5 \<and> largest_breakpoint_cols (getOptimalColumns 7) \<noteq> 5"
  by code_simp

section \<open>Properties of the XML listing parser\<close>

lemma dd_loop_filter:
  "dd_loop dds (us, fs) =
     (us @ map textContent (filter (\<lambda>dd. textContent dd \<noteq> []) dds),
      fs @ map (\<lambda>dd. or_default (getAttribute dd ''flag'') ''default'')
             (filter (\<lambda>dd. textContent dd \<noteq> []) dds))"
  by (induction dds arbitrary: us fs) (simp_all add: Let_def)

lemma dl_loop_filter:
  "dl_loop dls (us, fs) =
     (us @ map textContent
             (filter (\<lambda>dd. textContent dd \<noteq> [])
                (concat (map (\<lambda>dl. getElementsByTagName dl ''dd'') dls))),
      fs @ map (\<lambda>dd. or_default (getAttribute dd ''flag'') ''default'')
             (filter (\<lambda>dd. textContent dd \<noteq> [])
                (concat (map (\<lambda>dl. getElementsByTagName dl ''dd'') dls))))"
  by (induction dls arbitrary: us fs) (simp_all add: dd_loop_filter)

lemma playUrls_filter:
  "playUrls video = map textContent (filter (\<lambda>dd. textContent dd \<noteq> []) (dd_elements video))"
  by (simp add: playUrls_def play_lists_def dl_loop_filter dd_elements_def)

lemma playFroms_filter:
  "playFroms video =
     map (\<lambda>dd. or_default (getAttribute dd ''flag'') ''default'')
       (filter (\<lambda>dd. textContent dd \<noteq> []) (dd_elements video))"
  by (simp add: playFroms_def play_lists_def dl_loop_filter dd_elements_def)

lemma video_loop_map:
  "video_loop vs acc = acc @ map (\<lambda>video. JObj (videoData video)) vs"
  by (induction vs arbitrary: acc) simp_all

lemma fields_forEach_other:
  "k \<notin> snd ` set fs \<Longrightarrow> map_of (fields_forEach video fs acc) k = map_of acc k"
  by (induction fs arbitrary: acc) (auto simp: update_conv' split: list.splits)

lemma videoData_play_fields:
  "map_of (videoData video) ''vod_play_url'' = Some (JStr (join ''$$$'' (playUrls video))) \<and>
   map_of (videoData video) ''vod_play_from'' = Some (JStr (join ''$$$'' (playFroms video)))"
  by (simp add: videoData_def update_conv')

text \<open>
  Claim C2.  For every \<open>video\<close> element the arrays \<open>playUrls\<close> and \<open>playFroms\<close> built by
  the loops have the same length, and both are empty when no \<open>dl\<close> of the element has a
  \<open>dd\<close>.  The record stores the two arrays joined with \<open>$$$\<close>.
\<close>

theorem play_sequences_aligned:
  "length (playUrls video) = length (playFroms video) \<and>
   ((\<forall>dl \<in> set (getElementsByTagName video ''dl''). getElementsByTagName dl ''dd'' = []) \<longrightarrow>
      playUrls video = [] \<and> playFroms video = []) \<and>
   map_of (videoData video) ''vod_play_url'' = Some (JStr (join ''$$$'' (playUrls video))) \<and>
   map_of (videoData video) ''vod_play_from'' = Some (JStr (join ''$$$'' (playFroms video)))"
proof -
  have "length (playUrls video) = length (playFroms video)"
    by (simp add: playUrls_filter playFroms_filter)
  moreover have "playUrls video = [] \<and> playFroms video = []"
    if "\<forall>dl \<in> set (getElementsByTagName video ''dl''). getElementsByTagName dl ''dd'' = []"
  proof -
    from that have "dd_elements video = []"
      by (simp add: dd_elements_def)
    then show ?thesis
      by (simp add: playUrls_filter playFroms_filter)
  qed
  ultimately show ?thesis
    using videoData_play_fields [of video] by blast
qed

text \<open>
  The premise of C2 holds on a \<open>video\<close> whose only \<open>dl\<close> is empty.
\<close>

theorem play_sequences_aligned_witness:
  "length (playUrls video_two_dd) = 1 \<and> length (playFroms video_two_dd) = 1 \<and>
   getElementsByTagName video_empty_dl ''dd'' = [] \<and>
   playUrls video_empty_dl = [] \<and> playFroms video_empty_dl = []"
proof -
  have a: "length (playUrls video_two_dd) = 1" by code_simp
  have b: "\<forall>dl \<in> set (getElementsByTagName video_empty_dl ''dl''). getElementsByTagName dl ''dd'' = []"
    by code_simp
  have c: "getElementsByTagName video_empty_dl ''dd'' = []" by code_simp
  show ?thesis
    using a b c play_sequences_aligned [of video_two_dd] play_sequences_aligned [of video_empty_dl]
    by simp
qed

text \<open>
  Claim C4, as amended.  A \<open>dd\<close> contributes an entry to both arrays exactly when its text
  content is not the empty string: a \<open>dd\<close> with empty text is skipped, every other one,
  a blank one included, contributes its text and its flag.
\<close>

theorem empty_dd_skipped:
  "playUrls video = map textContent (filter (\<lambda>dd. textContent dd \<noteq> []) (dd_elements video)) \<and>
   playFroms video =
     map (\<lambda>dd. or_default (getAttribute dd ''flag'') ''default'')
       (filter (\<lambda>dd. textContent dd \<noteq> []) (dd_elements video))"
  using playUrls_filter playFroms_filter by blast

text \<open>
  The example of C4: an empty \<open>dd\<close> followed by \<open><dd flag="y">http://a</dd>\<close>.
\<close>

theorem empty_dd_skipped_witness:
  "dd_elements video_two_dd =
     [Element ''dd'' [(''flag'', ''x'')] [], Element ''dd'' [(''flag'', ''y'')] [Text ''http://a'']] \<and>
   playUrls video_two_dd = [''http://a''] \<and> playFroms video_two_dd = [''y'']"
proof -
  have d: "dd_elements video_two_dd =
     [Element ''dd'' [(''flag'', ''x'')] [], Element ''dd'' [(''flag'', ''y'')] [Text ''http://a'']]"
    by code_simp
  show ?thesis
    using empty_dd_skipped [of video_two_dd] by (simp add: d)
qed

text \<open>
  The claim as stated fails: a \<open>dd\<close> whose text is one space is pushed to both arrays.
\<close>

theorem blank_dd_counterexample:
  "dd_elements video_blank_dd = [blank_dd] \<and>
   textContent blank_dd = '' '' \<and> trim (textContent blank_dd) = [] \<and>
   playUrls video_blank_dd = ['' ''] \<and> playFroms video_blank_dd = [''x'']"
  by code_simp

text \<open>
  Claim C9.  The \<open>list\<close> of the parser's result holds one record per \<open>video\<close> element of
  the document, the record of the \<open>i\<close>-th element at index \<open>i\<close>: as many records as
  elements, in document order.
\<close>

theorem xml_records_in_document_order:
  "get_prop (parseXmlResponse P xmlText) ''list'' =
     Inr (JArr (map (\<lambda>video. JObj (videoData video))
                  (document_getElementsByTagName (parseFromString P xmlText) ''video''))) \<and>
   (\<exists>records. get_prop (parseXmlResponse P xmlText) ''list'' = Inr (JArr records) \<and>
      length records = length (document_getElementsByTagName (parseFromString P xmlText) ''video''))"
  by (simp add: parseXmlResponse_def Let_def video_loop_map split: list.splits prod.splits)

text \<open>
  Two \<open>video\<close> elements give two records, in the order of the elements.
\<close>

theorem xml_records_in_document_order_witness:
  "get_prop (parseXmlResponse sample_platform xml_text_a) ''list'' =
     Inr (JArr [JObj [(''vod_name'', JStr ''A''), (''vod_play_url'', JStr []), (''vod_play_from'', JStr [])],
                JObj [(''vod_id'', JStr ''7''), (''vod_play_url'', JStr []), (''vod_play_from'', JStr [])]])"
proof -
  have "map (\<lambda>video. JObj (videoData video))
          (document_getElementsByTagName (parseFromString sample_platform xml_text_a) ''video'') =
        [JObj [(''vod_name'', JStr ''A''), (''vod_play_url'', JStr []), (''vod_play_from'', JStr [])],
         JObj [(''vod_id'', JStr ''7''), (''vod_play_url'', JStr []), (''vod_play_from'', JStr [])]]"
    by code_simp
  then show ?thesis
    using xml_records_in_document_order [of sample_platform xml_text_a] by simp
qed

lemma videoData_vod_id:
  "map_of (videoData video) ''vod_id'' =
     (case getElementsByTagName video ''id'' of
        [] \<Rightarrow> None
      | element # others \<Rightarrow> Some (JStr (textContent element)))"
proof -
  have rest: "''vod_id'' \<notin> snd ` set (tl fields')"
    by (simp add: fields'_def)
  have split: "fields' = (''id'', ''vod_id'') # tl fields'"
    by (simp add: fields'_def)
  have "map_of (fields_forEach video ((''id'', ''vod_id'') # tl fields') []) ''vod_id'' =
     (case getElementsByTagName video ''id'' of
        [] \<Rightarrow> None
      | element # others \<Rightarrow> Some (JStr (textContent element)))"
    by (simp add: fields_forEach_other [OF rest] split: list.splits)
  then have "map_of (fields_forEach video fields' []) ''vod_id'' =
     (case getElementsByTagName video ''id'' of
        [] \<Rightarrow> None
      | element # others \<Rightarrow> Some (JStr (textContent element)))"
    using split by simp
  then show ?thesis
    by (simp add: videoData_def update_conv')
qed

lemma stamp_lookup:
  "map_of (stamp api item) k =
     (if k = ''api_url'' then Some (JStr (url api))
      else if k = ''source_code'' then Some (JStr (id' api))
      else if k = ''source_name'' then Some (JStr (name api))
      else map_of (own_enumerable item) k)"
  by (simp add: stamp_def update_conv')

text \<open>
  Claim C8, as amended.  A record of the XML path has a \<open>vod_id\<close> exactly when its
  \<open>video\<close> element has an \<open>id\<close> descendant, and it is the text content of the first one,
  whatever that text is; the stamping of the source keeps the \<open>vod_id\<close> of an item as it
  is, absent when it was absent.
\<close>

theorem vod_id_of_record:
  "map_of (videoData video) ''vod_id'' =
     (case getElementsByTagName video ''id'' of
        [] \<Rightarrow> None
      | element # others \<Rightarrow> Some (JStr (textContent element))) \<and>
   map_of (stamp api item) ''vod_id'' = map_of (own_enumerable item) ''vod_id''"
  using videoData_vod_id [of video] by (simp add: stamp_lookup)

text \<open>
  The claim as stated fails: a \<open>video\<close> with no \<open>id\<close> child gives a record with no \<open>vod_id\<close>.
\<close>

theorem vod_id_counterexample:
  "map (\<lambda>r. get_prop r ''vod_id'')
     (videos (fetchCategoryVideos sample_platform api_xml (Resolved (xml_response xml_text_a))
        initial_state)) = [Inr JUndefined, Inr (JStr ''7'')]"
  by code_simp

section \<open>Properties of the fetch orchestrator\<close>

lemma get_prop_stamp:
  "get_prop (JObj (stamp api item)) k =
     Inr (if k = ''api_url'' then JStr (url api)
          else if k = ''source_code'' then JStr (id' api)
          else if k = ''source_name'' then JStr (name api)
          else case map_of (own_enumerable item) k of Some x \<Rightarrow> x | None \<Rightarrow> JUndefined)"
  by (simp add: stamp_lookup)

lemma process_data_videos:
  "process_data api data st = Inr st' \<Longrightarrow>
     videos st' = [] \<or> (\<exists>items. videos st' = map (\<lambda>item. JObj (stamp api item)) items)"
  by (auto simp: process_data_def split: if_splits sum.splits jsval.splits)

lemma try_block_resolved:
  "try_block P api (Resolved resp) st =
     (if \<not> ok resp then Inr (st\<lparr>videos := []\<rparr>)
      else case (if isXmlApi api \<and> looks_xml resp then Inr (parseXmlResponse P (body resp))
                 else JSON_parse P (body resp)) of
        Inl e \<Rightarrow> Inl e
      | Inr data \<Rightarrow> process_data api data st)"
  by (simp add: try_block_def xml_branch_data_def json_branch_data_def)

lemma try_block_videos:
  "try_block P api fetched st = Inr st' \<Longrightarrow>
     videos st' = [] \<or> (\<exists>items. videos st' = map (\<lambda>item. JObj (stamp api item)) items)"
proof (cases fetched)
  case Rejected
  then show "try_block P api fetched st = Inr st' \<Longrightarrow> ?thesis"
    by (simp add: try_block_def split: if_splits)
next
  case (Resolved resp)
  assume "try_block P api fetched st = Inr st'"
  then show ?thesis
    using Resolved process_data_videos [of api _ st st']
    by (auto simp: try_block_resolved split: if_splits sum.splits)
qed

lemma fetch_videos:
  "videos (fetchCategoryVideos P api fetched st) = [] \<or>
   (\<exists>items. videos (fetchCategoryVideos P api fetched st) = map (\<lambda>item. JObj (stamp api item)) items)"
proof (cases "try_block P api fetched (st\<lparr>loading := True\<rparr>)")
  case (Inl e)
  then show ?thesis by (simp add: fetchCategoryVideos_def)
next
  case (Inr st')
  then show ?thesis
    using try_block_videos [OF Inr] by (simp add: fetchCategoryVideos_def)
qed

lemma fetch_fixture:
  assumes "JSON_parse P fixture_text = Inr fixture_json"
  shows "fetchCategoryVideos P api_s1 (Resolved (json_response fixture_text)) st =
     st\<lparr>videos := [JObj [(''vod_id'', JStr ''1''), (''vod_name'', JStr ''A''),
                         (''source_name'', JStr ''Src''), (''source_code'', JStr ''s1''),
                         (''api_url'', JStr ''http://x'')]],
        loading := False, pageCount := JNum (Fin 3)\<rparr>"
proof -
  have hint: "\<not> isXmlApi api_s1" by code_simp
  have rec: "stamp api_s1 (JObj [(''vod_id'', JStr ''1''), (''vod_name'', JStr ''A'')]) =
     [(''vod_id'', JStr ''1''), (''vod_name'', JStr ''A''),
      (''source_name'', JStr ''Src''), (''source_code'', JStr ''s1''),
      (''api_url'', JStr ''http://x'')]" by code_simp
  have "process_data api_s1 fixture_json st' =
     Inr (st'\<lparr>pageCount := JNum (Fin 3),
              videos := [JObj (stamp api_s1 (JObj [(''vod_id'', JStr ''1''), (''vod_name'', JStr ''A'')]))]\<rparr>)" for st'
    by (simp add: process_data_def fixture_json_def)
  then show ?thesis
    using assms hint
    by (simp add: fetchCategoryVideos_def try_block_resolved json_response_def rec)
qed

text \<open>
  Claim C1.  Every record that \<open>fetchCategoryVideos\<close> leaves in \<open>videos\<close> has the
  \<open>source_code\<close>, \<open>source_name\<close> and \<open>api_url\<close> of the requesting source, whatever the
  upstream item held under these keys; and the payload
  \<open>{"list":[{"vod_id":"1","vod_name":"A"}],"pagecount":3}\<close> from the source
  \<open>{id: "s1", name: "Src", url: "http://x"}\<close> gives one record with these five values and
  a page count of 3.
\<close>

theorem source_identity_stamped:
  "(\<forall>r \<in> set (videos (fetchCategoryVideos P api fetched st)).
      get_prop r ''source_code'' = Inr (JStr (id' api)) \<and>
      get_prop r ''source_name'' = Inr (JStr (name api)) \<and>
      get_prop r ''api_url'' = Inr (JStr (url api))) \<and>
   (JSON_parse P fixture_text = Inr fixture_json \<longrightarrow>
      fetchCategoryVideos P api_s1 (Resolved (json_response fixture_text)) st =
        st\<lparr>videos := [JObj [(''vod_id'', JStr ''1''), (''vod_name'', JStr ''A''),
                            (''source_name'', JStr ''Src''), (''source_code'', JStr ''s1''),
                            (''api_url'', JStr ''http://x'')]],
           loading := False, pageCount := JNum (Fin 3)\<rparr>)"
proof -
  have "get_prop r ''source_code'' = Inr (JStr (id' api)) \<and>
        get_prop r ''source_name'' = Inr (JStr (name api)) \<and>
        get_prop r ''api_url'' = Inr (JStr (url api))"
    if "r \<in> set (videos (fetchCategoryVideos P api fetched st))" for r
    using that fetch_videos [of P api fetched st] by (auto simp: stamp_lookup)
  then show ?thesis
    using fetch_fixture by blast
qed

text \<open>
  An item that already has a \<open>source_code\<close> gets the one of the source, and the sample
  platform parses the fixture.
\<close>

theorem source_identity_stamped_witness:
  "videos (fetchCategoryVideos sample_platform api_s1 (Resolved (json_response stamped_text)) initial_state) =
     [JObj [(''vod_id'', JStr ''9''), (''source_code'', JStr ''s1''),
            (''source_name'', JStr ''Src''), (''api_url'', JStr ''http://x'')]] \<and>
   get_prop (JObj [(''vod_id'', JStr ''9''), (''source_code'', JStr ''s1''),
            (''source_name'', JStr ''Src''), (''api_url'', JStr ''http://x'')]) ''source_code'' = Inr (JStr ''s1'') \<and>
   JSON_parse sample_platform fixture_text = Inr fixture_json \<and>
   fetchCategoryVideos sample_platform api_s1 (Resolved (json_response fixture_text)) initial_state =
     \<lparr>videos = [JObj [(''vod_id'', JStr ''1''), (''vod_name'', JStr ''A''),
                       (''source_name'', JStr ''Src''), (''source_code'', JStr ''s1''),
                       (''api_url'', JStr ''http://x'')]],
      loading = False, pageCount = JNum (Fin 3)\<rparr>"
proof -
  have v: "videos (fetchCategoryVideos sample_platform api_s1 (Resolved (json_response stamped_text)) initial_state) =
     [JObj [(''vod_id'', JStr ''9''), (''source_code'', JStr ''s1''),
            (''source_name'', JStr ''Src''), (''api_url'', JStr ''http://x'')]]"
    by code_simp
  have p: "JSON_parse sample_platform fixture_text = Inr fixture_json"
    by code_simp
  have a: "id' api_s1 = ''s1''" by (simp add: api_s1_def)
  show ?thesis
    using source_identity_stamped [of sample_platform api_s1 "Resolved (json_response stamped_text)" initial_state]
      v p a
    by (simp add: initial_state_def)
qed











lemma process_data_not_array:
  assumes "\<forall>l. get_prop data ''list'' = Inr l \<longrightarrow> \<not> isArray l"
  shows "process_data api data st = Inr (st\<lparr>videos := []\<rparr>)"
proof (cases "get_prop data ''list''")
  case (Inl e)
  then have "\<not> truthy data"
    by (cases data) simp_all
  then show ?thesis
    by (simp add: process_data_def)
next
  case (Inr l)
  then have "\<not> isArray l"
    using assms by simp
  then show ?thesis
    using Inr by (cases l) (simp_all add: process_data_def)
qed

text \<open>
  Claim C6, as amended.  When the body of a successful response is parsed as JSON and the
  \<open>list\<close> property of the value is not an array, \<open>fetchCategoryVideos\<close> ends with no
  records and leaves \<open>pageCount\<close> as it was before the request (1 only if no earlier
  response has set it); the model is a total function, no exception leaves it.
\<close>

theorem non_array_list_no_records:
  assumes "ok resp" and "\<not> (isXmlApi api \<and> looks_xml resp)"
    and "JSON_parse P (body resp) = Inr data"
    and "\<forall>l. get_prop data ''list'' = Inr l \<longrightarrow> \<not> isArray l"
  shows "fetchCategoryVideos P api (Resolved resp) st = st\<lparr>videos := [], loading := False\<rparr> \<and>
         pageCount (fetchCategoryVideos P api (Resolved resp) st) = pageCount st"
proof -
  have sel: "(if isXmlApi api \<and> looks_xml resp then A else B) = B" for A B :: "js_error + jsval"
    using assms(2) by (rule if_not_P)
  have "try_block P api (Resolved resp) (st\<lparr>loading := True\<rparr>) =
          Inr (st\<lparr>loading := True\<rparr>\<lparr>videos := []\<rparr>)"
    using assms(1,3) process_data_not_array [OF assms(4), of api "st\<lparr>loading := True\<rparr>"]
    by (simp only: try_block_resolved sel) simp
  then show ?thesis
    by (simp add: fetchCategoryVideos_def)
qed

text \<open>The payload \<open>{"list":"not-an-array"}\<close>, requested when the page count is 3.\<close>

theorem non_array_list_no_records_witness:
  "ok (json_response not_array_text) \<and>
   JSON_parse sample_platform (body (json_response not_array_text)) = Inr not_array_json \<and>
   get_prop not_array_json ''list'' = Inr (JStr ''not-an-array'') \<and>
   fetchCategoryVideos sample_platform api_s1 (Resolved (json_response not_array_text))
     \<lparr>videos = [JNull], loading = False, pageCount = JNum (Fin 3)\<rparr> =
     \<lparr>videos = [], loading = False, pageCount = JNum (Fin 3)\<rparr>"
proof -
  have a: "ok (json_response not_array_text)" by (simp add: json_response_def)
  have b: "\<not> (isXmlApi api_s1 \<and> looks_xml (json_response not_array_text))" by code_simp
  have c: "JSON_parse sample_platform (body (json_response not_array_text)) = Inr not_array_json"
    by code_simp
  have d: "get_prop not_array_json ''list'' = Inr (JStr ''not-an-array'')" by code_simp
  have e: "\<forall>l. get_prop not_array_json ''list'' = Inr l \<longrightarrow> \<not> isArray l"
    by (simp add: d)
  show ?thesis
    using a c d non_array_list_no_records [OF a b c e,
        of "\<lparr>videos = [JNull], loading = False, pageCount = JNum (Fin 3)\<rparr>"]
    by simp
qed

text \<open>
  The claim as stated fails: after a first response that declares three pages, a second
  response whose \<open>list\<close> is not an array leaves the page count at 3, not 1.
\<close>

theorem non_array_page_count_counterexample:
  "pageCount (fetchCategoryVideos sample_platform api_s1 (Resolved (json_response not_array_text))
     (fetchCategoryVideos sample_platform api_s1 (Resolved (json_response fixture_text))
        initial_state)) = JNum (Fin 3) \<and>
   JNum (Fin 3) \<noteq> JNum (Fin 1)"
  by code_simp




end
